theory Spec2Isabelle
  imports Main "HOL-Library.Monad_Syntax" "HOL-Library.Word"
begin

section \<open>The service installer \<^verbatim>\<open>src/system/install-service.sh.in\<close>\<close>

text \<open>
  The script is a POSIX shell program. Its model is a state-passing embedding:
  \<^item> everything the script reads from the machine (the output of \<^verbatim>\<open>uname\<close>, the file
    tests \<^verbatim>\<open>-d -f -x -w -e\<close>, \<^verbatim>\<open>command -v\<close>, the exit statuses and outputs of the external
    commands it runs, the inherited process environment) is a field of the record
    \<open>environment\<close>, which no function changes;
  \<^item> the shell variables the script assigns, and the lines it writes itself to standard
    output and standard error, are the record \<open>shell_state\<close>;
  \<^item> \<^verbatim>\<open>exit n\<close> is the left injection \<open>Inl (n, st)\<close> of a sum, a function that returns
    normally gives \<open>Inr\<close>; a function used for its exit status returns the status with
    the state;
  \<^item> a call that never returns is \<open>None\<close>.
  An unset variable reads as the empty string (the script runs without \<^verbatim>\<open>set -u\<close>), so a
  string variable is a \<open>string\<close> and unset is \<open>[]\<close>. The variables \<^verbatim>\<open>IS_WSL\<close>, ... cache
  an exit status: they are \<open>nat option\<close>, \<open>None\<close> for unset or empty.
\<close>

subsection \<open>The machine and the shell variables\<close>

record environment =
  uname_s :: string
  uname_r :: string
  getenv :: "string \<Rightarrow> string"
  inherited_status :: "string \<Rightarrow> nat option"
  svc_source_templated :: string
  script_dir :: string
  is_dir :: "string \<Rightarrow> bool"
  is_file :: "string \<Rightarrow> bool"
  is_exec :: "string \<Rightarrow> bool"
  is_writable :: "string \<Rightarrow> bool"
  path_exists :: "string \<Rightarrow> bool"
  command_v :: "string \<Rightarrow> string"
  pid1_exe_basename :: string
  safe_pidof :: "string \<Rightarrow> string list"
  readlink :: "string \<Rightarrow> string"
  grep_vw_selects :: "string \<Rightarrow> string \<Rightarrow> bool"
  cmd_status :: "string list \<Rightarrow> nat"
  cmd_output :: "string list \<Rightarrow> string"
  systemctl_version_le_235 :: bool
  runlevel_dirs :: "string list"
  can_write_file :: "string \<Rightarrow> bool"
  shift_fail_status :: nat
  redirect_fail_status :: nat

text \<open>
  \<open>uname_s\<close> and \<open>uname_r\<close> are the outputs of \<^verbatim>\<open>uname -s\<close> and \<^verbatim>\<open>uname -r\<close>;
  \<open>getenv\<close> is the inherited process environment (empty for an unset name) and
  \<open>inherited_status\<close> the inherited value of a status cache variable;
  \<open>svc_source_templated\<close> is what the build put in place of \<^verbatim>\<open>@libsysdir_POST@\<close> on line 34
  (the placeholder itself when the file was not templated);
  \<open>script_dir\<close> is \<^verbatim>\<open>$(dirname "${SCRIPT_SOURCE}")\<close>;
  \<open>command_v c\<close> is the output of \<^verbatim>\<open>command -v c\<close>, empty exactly when it fails;
  \<open>pid1_exe_basename\<close> is \<^verbatim>\<open>$(basename "$(readlink /proc/1/exe)" 2> /dev/null)\<close>;
  \<open>safe_pidof c\<close> are the words of the output of \<^verbatim>\<open>safe_pidof c\<close> (a command the script
  does not define, so the words are empty where the machine has none);
  \<open>grep_vw_selects pat line\<close> says that \<^verbatim>\<open>grep -vw pat\<close> selects the one line \<open>line\<close> it
  reads, that is, prints it and exits with status 0;
  \<open>is_dir\<close>, \<open>is_file\<close>, \<open>is_exec\<close>, \<open>is_writable\<close> and \<open>path_exists\<close> are the tests
  \<^verbatim>\<open>-d\<close>, \<^verbatim>\<open>-f\<close>, \<^verbatim>\<open>-x\<close>, \<^verbatim>\<open>-w\<close> and \<^verbatim>\<open>-e\<close>, and \<open>readlink p\<close> is the output of \<^verbatim>\<open>readlink p\<close>;
  \<open>cmd_status argv\<close> and \<open>cmd_output argv\<close> are the exit status and the standard output of
  the external command \<open>argv\<close> (what such a command prints itself is not recorded in the
  state);
  \<open>systemctl_version_le_235\<close> says that the test of the systemd version on line 242
  succeeds;
  \<open>runlevel_dirs\<close> is the expansion of \<^verbatim>\<open>/etc/runlevels/*\<close>;
  \<open>can_write_file p\<close> says that the redirection \<^verbatim>\<open>> p\<close> can open \<open>p\<close>;
  \<open>shift_fail_status\<close> and \<open>redirect_fail_status\<close> are the statuses with which the shell
  at hand leaves when \<^verbatim>\<open>shift 1\<close> has nothing to shift, and when a redirection fails.
\<close>

record shell_state =
  DUMP_CMDS :: nat
  ENABLE :: string
  EXPORT_CMDS :: nat
  INSTALL :: nat
  SVC_SOURCE :: string
  SVC_TYPE :: string
  SAVE_CMDS_PATH :: string
  NETDATA_START_CMD :: string
  NETDATA_STOP_CMD :: string
  NETDATA_INSTALLER_START_CMD :: string
  NETDATA_WARNINGS :: string
  SAVED_WARNINGS :: string
  IS_WSL :: "nat option"
  IS_SYSTEMD :: "nat option"
  IS_OPENRC :: "nat option"
  IS_LSB :: "nat option"
  IS_INITD :: "nat option"
  IS_RUNIT :: "nat option"
  exported :: "string list"
  stdout :: "string list"
  stderr :: "string list"
  written_files :: "(string \<times> string list) list"

text \<open>
  Lines 28 to 35: the variables the script initialises. Every other variable starts with
  the value the process inherited.
\<close>

definition LINUX_INIT_TYPES :: "string list" where
  "LINUX_INIT_TYPES = [''wsl'', ''systemd'', ''openrc'', ''lsb'', ''initd'', ''runit'']"

definition initial_state :: "environment \<Rightarrow> shell_state" where
  "initial_state env =
     \<lparr> DUMP_CMDS = 0,
       ENABLE = ''auto'',
       EXPORT_CMDS = 0,
       INSTALL = 1,
       SVC_SOURCE = svc_source_templated env,
       SVC_TYPE = ''detect'',
       SAVE_CMDS_PATH = getenv env ''SAVE_CMDS_PATH'',
       NETDATA_START_CMD = getenv env ''NETDATA_START_CMD'',
       NETDATA_STOP_CMD = getenv env ''NETDATA_STOP_CMD'',
       NETDATA_INSTALLER_START_CMD = getenv env ''NETDATA_INSTALLER_START_CMD'',
       NETDATA_WARNINGS = getenv env ''NETDATA_WARNINGS'',
       SAVED_WARNINGS = getenv env ''SAVED_WARNINGS'',
       IS_WSL = inherited_status env ''IS_WSL'',
       IS_SYSTEMD = inherited_status env ''IS_SYSTEMD'',
       IS_OPENRC = inherited_status env ''IS_OPENRC'',
       IS_LSB = inherited_status env ''IS_LSB'',
       IS_INITD = inherited_status env ''IS_INITD'',
       IS_RUNIT = inherited_status env ''IS_RUNIT'',
       exported = [],
       stdout = [],
       stderr = [],
       written_files = [] \<rparr>"

subsection \<open>Utility functions (lines 40 to 148)\<close>

definition backslash_n :: string where
  "backslash_n = [CHR 0x5C, CHR ''n'']"

definition squote :: string where
  "squote = [CHR 0x27]"

text \<open>
  \<open>save_warning\<close> is the \<^verbatim>\<open>if [ -n "${NETDATA_SAVE_WARNINGS}" ]\<close> block that \<open>warning\<close> and
  \<open>error\<close> both start with. Inside double quotes the shell keeps the two characters backslash and n
  as they are.
\<close>

definition save_warning :: "environment \<Rightarrow> string \<Rightarrow> shell_state \<Rightarrow> shell_state" where
  "save_warning env msg st =
     (if getenv env ''NETDATA_SAVE_WARNINGS'' \<noteq> []
      then st\<lparr>SAVED_WARNINGS := SAVED_WARNINGS st @ backslash_n @ ''  - '' @ msg\<rparr>
      else st)"

definition info :: "string \<Rightarrow> shell_state \<Rightarrow> shell_state" where
  "info msg st = st\<lparr>stderr := stderr st @ [msg]\<rparr>"

definition warning :: "environment \<Rightarrow> string \<Rightarrow> shell_state \<Rightarrow> shell_state" where
  "warning env msg st =
     (let st1 = save_warning env msg st
      in st1\<lparr>stderr := stderr st1 @ [''WARNING: '' @ msg]\<rparr>)"

definition error :: "environment \<Rightarrow> string \<Rightarrow> shell_state \<Rightarrow> shell_state" where
  "error env msg st =
     (let st1 = save_warning env msg st
      in st1\<lparr>stderr := stderr st1 @ [''ERROR: '' @ msg]\<rparr>)"

text \<open>
  \<open>cleanup\<close> is the \<^verbatim>\<open>EXIT\<close> trap that \<open>main\<close> installs: it runs at every exit of the main
  shell with the exit status in \<^verbatim>\<open>$?\<close> and leaves with the same status.
\<close>

definition cleanup :: "environment \<Rightarrow> nat \<Rightarrow> shell_state \<Rightarrow> nat \<times> shell_state" where
  "cleanup env ec st =
     (if getenv env ''NETDATA_SAVE_WARNINGS'' \<noteq> [] \<and> getenv env ''NETDATA_PROPAGATE_WARNINGS'' \<noteq> []
      then (ec, st\<lparr>NETDATA_WARNINGS := NETDATA_WARNINGS st @ SAVED_WARNINGS st,
                   exported := exported st @ [''NETDATA_WARNINGS'']\<rparr>)
      else (ec, st))"

definition valid_types :: "environment \<Rightarrow> string" where
  "valid_types env =
     (if uname_s env = ''Linux'' then ''detect systemd openrc lsb initd''
      else if uname_s env = ''FreeBSD'' then ''detect freebsd''
      else if uname_s env = ''Darwin'' then ''detect launchd''
      else ''detect'')"

text \<open>
  The output of a command substitution \<^verbatim>\<open>$(...)\<close>: the lines written, joined by newlines,
  without the trailing newlines. The substitution runs in a subshell, so of the state
  the subshell ends with only what it wrote to standard error is kept.
\<close>

definition strip_nl :: "string \<Rightarrow> string" where
  "strip_nl s = rev (dropWhile (\<lambda>c. c = CHR 0x0A) (rev s))"

fun join_lines :: "string list \<Rightarrow> string" where
  "join_lines [] = []"
| "join_lines [l] = l"
| "join_lines (l # ls) = l @ [CHR 0x0A] @ join_lines ls"

definition subshell_in :: "shell_state \<Rightarrow> shell_state" where
  "subshell_in st = st\<lparr>stdout := []\<rparr>"

definition subshell_out :: "shell_state \<Rightarrow> shell_state \<Rightarrow> string \<times> shell_state" where
  "subshell_out st sub = (strip_nl (join_lines (stdout sub)), st\<lparr>stderr := stderr sub\<rparr>)"

definition basename_of :: "string \<Rightarrow> string" where
  "basename_of p = rev (takeWhile (\<lambda>c. c \<noteq> CHR ''/'') (rev p))"

text \<open>
  A hook of \<open>install_generic_service\<close> is a function of the script; the ones that run a
  command outside a condition can leave the shell under \<^verbatim>\<open>set -e\<close>.
\<close>

type_synonym hook = "shell_state \<Rightarrow> (nat \<times> shell_state) + shell_state"

definition install_generic_service ::
  "environment \<Rightarrow> string \<Rightarrow> string \<Rightarrow> string \<Rightarrow> hook \<Rightarrow> hook \<Rightarrow> shell_state
     \<Rightarrow> (nat \<times> shell_state) + shell_state" where
  "install_generic_service env svc_type svc_type_name svc_file svc_enable_hook svc_disable_hook st =
     (let st1 = info (''Installing '' @ svc_type_name @ '' service file.'') st;
          st2 = (if \<not> is_file env svc_file \<and> ENABLE st1 = ''auto''
                 then st1\<lparr>ENABLE := ''enable''\<rparr> else st1)
      in if cmd_status env [''install'', ''-p'', ''-m'', ''0755'', ''-o'', ''0'', ''-g'', ''0'',
                            SVC_SOURCE st2 @ ''/netdata-'' @ svc_type, ''/etc/init.d/netdata''] \<noteq> 0
         then Inl (4, error env ''Failed to install service file.'' st2)
         else if ENABLE st2 = ''auto'' then Inr st2
         else if ENABLE st2 = ''disable''
           then svc_disable_hook (info ''Disabling Netdata service.'' st2)
         else if ENABLE st2 = ''enable''
           then svc_enable_hook (info ''Enabling Netdata service.'' st2)
         else Inr st2)"

definition dump_lines :: "shell_state \<Rightarrow> string list" where
  "dump_lines st =
     (if NETDATA_START_CMD st \<noteq> []
      then [''NETDATA_START_CMD='' @ squote @ NETDATA_START_CMD st @ squote] else []) @
     (if NETDATA_STOP_CMD st \<noteq> []
      then [''NETDATA_STOP_CMD='' @ squote @ NETDATA_STOP_CMD st @ squote] else []) @
     (if NETDATA_INSTALLER_START_CMD st \<noteq> []
      then [''NETDATA_INSTALLER_START_CMD='' @ squote @ NETDATA_INSTALLER_START_CMD st @ squote]
      else [])"

definition dump_cmds :: "shell_state \<Rightarrow> shell_state" where
  "dump_cmds st = st\<lparr>stdout := stdout st @ dump_lines st\<rparr>"

text \<open>
  \<open>export_cmds\<close>, lines 139 to 144. The third line reads
  \<^verbatim>\<open>NETDATA_INSTALLER_START_COMMAND\<close>, a variable the script assigns nowhere: its value is
  the inherited one.
\<close>

definition export_cmds :: "environment \<Rightarrow> shell_state \<Rightarrow> shell_state" where
  "export_cmds env st =
     (let st1 = (if NETDATA_START_CMD st \<noteq> []
                 then st\<lparr>NETDATA_START_CMD := NETDATA_START_CMD st,
                         exported := exported st @ [''NETDATA_START_CMD'']\<rparr>
                 else st);
          st2 = (if NETDATA_STOP_CMD st1 \<noteq> []
                 then st1\<lparr>NETDATA_STOP_CMD := NETDATA_STOP_CMD st1,
                          exported := exported st1 @ [''NETDATA_STOP_CMD'']\<rparr>
                 else st1)
      in if NETDATA_INSTALLER_START_CMD st2 \<noteq> []
         then st2\<lparr>NETDATA_INSTALLER_START_CMD := getenv env ''NETDATA_INSTALLER_START_COMMAND'',
                  exported := exported st2 @ [''NETDATA_INSTALLER_START_CMD'']\<rparr>
         else st2)"

definition save_cmds :: "environment \<Rightarrow> shell_state \<Rightarrow> (nat \<times> shell_state) + shell_state" where
  "save_cmds env st =
     (if can_write_file env (SAVE_CMDS_PATH st)
      then Inr (st\<lparr>written_files := written_files st @ [(SAVE_CMDS_PATH st, dump_lines st)]\<rparr>)
      else Inl (redirect_fail_status env, st))"

subsection \<open>Help functions (lines 153 to 174)\<close>

definition usage :: "shell_state \<Rightarrow> shell_state" where
  "usage st = st\<lparr>stdout := stdout st @
     [''USAGE: install-service.sh [options]'',
      ''       where options include:'',
      [],
      ''  --source      Specify where to find the service files to install (default '' @ SVC_SOURCE st @ '').'',
      ''  --type        Specify the type of service file to install. Specify a type of '' @ squote @ ''help'' @ squote @ '' to get a list of valid types for your platform.'',
      ''  --cmds        Additionally print a list of commands for starting and stopping the agent with the detected service type.'',
      ''  --export-cmds Export the variables that would be printed by the --cmds option.'',
      ''  --cmds-only   Don'' @ squote @ ''t install, just handle the --cmds or --export-cmds option.'',
      ''  --enable      Explicitly enable the service on install (default is to enable if not already installed).'',
      ''  --disable     Explicitly disable the service on install.'',
      ''  --help        Print this help information.'']\<rparr>"

definition help_types :: "environment \<Rightarrow> shell_state \<Rightarrow> shell_state" where
  "help_types env st = st\<lparr>stdout := stdout st @
     [''Valid service types for '' @ uname_s env @ '' are:'', valid_types env]\<rparr>"

subsection \<open>systemd (lines 179 to 274)\<close>

definition issystemd :: "environment \<Rightarrow> nat" where
  "issystemd env =
     (if \<not> is_dir env ''/lib/systemd/system'' \<and> \<not> is_dir env ''/usr/lib/systemd/system'' then 1
      else if command_v env ''systemctl'' = [] \<or> \<not> is_exec env (command_v env ''systemctl'') then 1
      else if pid1_exe_basename env = ''systemd'' then 0
      else if safe_pidof env ''systemd'' = [] then 1
      else if list_ex (\<lambda>p. readlink env ''/proc/self/ns/pid'' \<noteq> [] \<and>
                  readlink env ''/proc/self/ns/pid'' = readlink env (''/proc/'' @ p @ ''/ns/pid''))
                (safe_pidof env ''systemd'') then 0
      else 1)"

definition check_systemd :: "environment \<Rightarrow> shell_state \<Rightarrow> nat \<times> shell_state" where
  "check_systemd env st =
     (case IS_SYSTEMD st of
        None \<Rightarrow> (issystemd env, st\<lparr>IS_SYSTEMD := Some (issystemd env)\<rparr>)
      | Some rc \<Rightarrow> (rc, st))"

text \<open>
  \<open>get_systemd_service_dir\<close> is only called inside a command substitution: its
  \<^verbatim>\<open>exit 4\<close> ends that subshell, not the script.
\<close>

definition get_systemd_service_dir :: "environment \<Rightarrow> shell_state \<Rightarrow> (nat \<times> shell_state) + shell_state" where
  "get_systemd_service_dir env st =
     (if is_writable env ''/lib/systemd/system''
        then Inr (st\<lparr>stdout := stdout st @ [''/lib/systemd/system'']\<rparr>)
      else if is_writable env ''/usr/lib/systemd/system''
        then Inr (st\<lparr>stdout := stdout st @ [''/usr/lib/systemd/system'']\<rparr>)
      else if is_writable env ''/etc/systemd/system''
        then Inr (st\<lparr>stdout := stdout st @ [''/etc/systemd/system'']\<rparr>)
      else Inl (4, error env ''Unable to detect systemd service directory.'' st))"

definition install_systemd_service :: "environment \<Rightarrow> shell_state \<Rightarrow> (nat \<times> shell_state) + shell_state" where
  "install_systemd_service env st =
     (let SRCFILE = (if systemctl_version_le_235 env
                     then SVC_SOURCE st @ ''/netdata.service.v235''
                     else SVC_SOURCE st @ ''/netdata.service'');
          IS_NETDATA_ENABLED = strip_nl
            (if cmd_status env [''systemctl'', ''is-enabled'', ''netdata''] = 0
             then cmd_output env [''systemctl'', ''is-enabled'', ''netdata'']
             else cmd_output env [''systemctl'', ''is-enabled'', ''netdata''] @ ''Netdata not there'');
          st1 = (if ENABLE st = ''auto''
                 then (if IS_NETDATA_ENABLED = ''disabled''
                       then st\<lparr>ENABLE := ''disable''\<rparr> else st\<lparr>ENABLE := ''enable''\<rparr>)
                 else st);
          st2 = info ''Installing systemd service...'' st1;
          sub = (case get_systemd_service_dir env (subshell_in st2) of
                   Inl (ec, s) \<Rightarrow> s | Inr s \<Rightarrow> s);
          dir = fst (subshell_out st2 sub);
          st3 = snd (subshell_out st2 sub)
      in if cmd_status env [''install'', ''-p'', ''-m'', ''0644'', ''-o'', ''0'', ''-g'', ''0'',
                            SRCFILE, dir @ ''/netdata.service''] \<noteq> 0
         then Inl (4, error env ''Failed to install systemd service file.'' st3)
         else
           (let st4 = (if cmd_status env [''systemctl'', ''daemon-reload''] \<noteq> 0
                       then warning env ''Failed to reload systemd unit files.'' st3 else st3)
            in if cmd_status env [''systemctl'', ENABLE st4, ''netdata''] \<noteq> 0
               then Inr (warning env (''Failed to '' @ ENABLE st4 @ '' Netdata service.'') st4)
               else Inr st4))"

definition systemd_cmds :: "shell_state \<Rightarrow> shell_state" where
  "systemd_cmds st = st\<lparr>NETDATA_START_CMD := ''systemctl start netdata'',
                        NETDATA_STOP_CMD := ''systemctl stop netdata''\<rparr>"

subsection \<open>OpenRC (lines 279 to 334)\<close>

definition isopenrc :: "environment \<Rightarrow> nat" where
  "isopenrc env =
     (if \<not> is_file env ''/lib/rc/sh/functions.sh'' then 1
      else if \<not> is_dir env ''/etc/init.d'' then 1
      else if pid1_exe_basename env = ''openrc-init'' then 0
      else if is_file env ''/run/openrc/softlevel'' then 0
      else if command_v env ''openrc'' \<noteq> [] then 0
      else 1)"

definition check_openrc :: "environment \<Rightarrow> shell_state \<Rightarrow> nat \<times> shell_state" where
  "check_openrc env st =
     (case IS_OPENRC st of
        None \<Rightarrow> (isopenrc env, st\<lparr>IS_OPENRC := Some (isopenrc env)\<rparr>)
      | Some rc \<Rightarrow> (rc, st))"

text \<open>
  \<open>enable_openrc\<close> runs \<^verbatim>\<open>runlevel="$(rc-status -r)"\<close> outside any condition: under
  \<^verbatim>\<open>set -e\<close> a failing \<^verbatim>\<open>rc-status\<close> ends the script with its status.
\<close>

definition enable_openrc :: "environment \<Rightarrow> hook" where
  "enable_openrc env st =
     (if cmd_status env [''rc-status'', ''-r''] \<noteq> 0
      then Inl (cmd_status env [''rc-status'', ''-r''], st)
      else
        (let runlevel = (if strip_nl (cmd_output env [''rc-status'', ''-r'']) = [] then ''default''
                         else strip_nl (cmd_output env [''rc-status'', ''-r'']))
         in if cmd_status env [''rc-update'', ''add'', ''netdata'', runlevel] \<noteq> 0
            then Inr (warning env (''Failed to enable Netdata service in runlevel '' @ runlevel @ ''.'') st)
            else Inr st))"

fun disable_openrc_loop :: "environment \<Rightarrow> string list \<Rightarrow> shell_state \<Rightarrow> shell_state" where
  "disable_openrc_loop env [] st = st"
| "disable_openrc_loop env (runlevel # rest) st =
     (if path_exists env (runlevel @ ''/netdata'')
      then (if cmd_status env [''rc-update'', ''del'', ''netdata'', basename_of runlevel] \<noteq> 0
            then disable_openrc_loop env rest
                   (warning env (''Failed to disable Netdata service in runlevel '' @
                                 basename_of runlevel @ ''.'') st)
            else disable_openrc_loop env rest st)
      else disable_openrc_loop env rest st)"

definition disable_openrc :: "environment \<Rightarrow> hook" where
  "disable_openrc env st = Inr (disable_openrc_loop env (runlevel_dirs env) st)"

definition install_openrc_service :: "environment \<Rightarrow> shell_state \<Rightarrow> (nat \<times> shell_state) + shell_state" where
  "install_openrc_service env =
     install_generic_service env ''openrc'' ''OpenRC'' ''/etc/init.d/netdata''
       (enable_openrc env) (disable_openrc env)"

definition openrc_cmds :: "shell_state \<Rightarrow> shell_state" where
  "openrc_cmds st = st\<lparr>NETDATA_START_CMD := ''rc-service netdata start'',
                       NETDATA_STOP_CMD := ''rc-service netdata stop''\<rparr>"

subsection \<open>LSB init scripts (lines 339 to 387)\<close>

definition islsb :: "environment \<Rightarrow> shell_state \<Rightarrow> nat \<times> shell_state" where
  "islsb env st =
     (if \<not> is_dir env ''/etc/init.d'' then (1, st)
      else (let r = check_openrc env st
            in if fst r = 0 then (1, snd r)
               else if is_file env ''/lib/lsb/init-functions'' then (0, snd r)
               else (1, snd r)))"

definition check_lsb :: "environment \<Rightarrow> shell_state \<Rightarrow> nat \<times> shell_state" where
  "check_lsb env st =
     (case IS_LSB st of
        None \<Rightarrow> (let r = islsb env st in (fst r, (snd r)\<lparr>IS_LSB := Some (fst r)\<rparr>))
      | Some rc \<Rightarrow> (rc, st))"

definition enable_lsb :: "environment \<Rightarrow> hook" where
  "enable_lsb env st =
     (if cmd_status env [''update-rc.d'', ''netdata'', ''defaults''] \<noteq> 0
        then Inr (warning env ''Failed to enable Netdata service.'' st)
      else if cmd_status env [''update-rc.d'', ''netdata'', ''defaults-disable''] \<noteq> 0
        then Inr (warning env ''Failed to fully enable Netdata service.'' st)
      else Inr st)"

definition disable_lsb :: "environment \<Rightarrow> hook" where
  "disable_lsb env st =
     (if cmd_status env [''update-rc.d'', ''netdata'', ''remove''] \<noteq> 0
      then Inr (warning env ''Failed to disable Netdata service.'' st)
      else Inr st)"

definition install_lsb_service :: "environment \<Rightarrow> shell_state \<Rightarrow> (nat \<times> shell_state) + shell_state" where
  "install_lsb_service env =
     install_generic_service env ''lsb'' ''LSB'' ''/etc/init.d/netdata''
       (enable_lsb env) (disable_lsb env)"

definition lsb_cmds :: "environment \<Rightarrow> shell_state \<Rightarrow> shell_state" where
  "lsb_cmds env st =
     (if command_v env ''service'' \<noteq> []
      then st\<lparr>NETDATA_START_CMD := ''service netdata start'',
              NETDATA_STOP_CMD := ''service netdata stop''\<rparr>
      else st\<lparr>NETDATA_START_CMD := ''/etc/init.d/netdata start'',
              NETDATA_STOP_CMD := ''/etc/init.d/netdata stop''\<rparr>)"

subsection \<open>init.d (lines 392 to 438)\<close>

text \<open>
  \<open>isinitd\<close> calls \<open>check_initd\<close> and \<open>check_initd\<close> calls \<open>isinitd\<close>. The two functions
  are one recursive function of the name of the function called; the recursion follows
  the calls of the source, and a call that never returns has the value \<open>None\<close>.
\<close>

datatype initd_fn = Isinitd | Check_initd

partial_function (option) initd_call ::
  "environment \<Rightarrow> initd_fn \<Rightarrow> shell_state \<Rightarrow> (nat \<times> shell_state) option" where
  "initd_call env f st =
     (case f of
        Isinitd \<Rightarrow>
          (if \<not> is_dir env ''/etc/init.d'' then Some (1, st)
           else if command_v env ''chkconfig'' = [] then Some (1, st)
           else do { r \<leftarrow> initd_call env Check_initd st;
                     if fst r \<noteq> 0 then Some (0, snd r) else Some (1, snd r) })
      | Check_initd \<Rightarrow>
          (case IS_INITD st of
             None \<Rightarrow> do { r \<leftarrow> initd_call env Isinitd st;
                          Some (fst r, (snd r)\<lparr>IS_INITD := Some (fst r)\<rparr>) }
           | Some rc \<Rightarrow> Some (rc, st)))"

definition isinitd :: "environment \<Rightarrow> shell_state \<Rightarrow> (nat \<times> shell_state) option" where
  "isinitd env st = initd_call env Isinitd st"

definition check_initd :: "environment \<Rightarrow> shell_state \<Rightarrow> (nat \<times> shell_state) option" where
  "check_initd env st = initd_call env Check_initd st"

definition enable_initd :: "environment \<Rightarrow> hook" where
  "enable_initd env st =
     (if cmd_status env [''chkconfig'', ''netdata'', ''on''] \<noteq> 0
      then Inr (warning env ''Failed to enable Netdata service.'' st)
      else Inr st)"

definition disable_initd :: "environment \<Rightarrow> hook" where
  "disable_initd env st =
     (if cmd_status env [''chkconfig'', ''netdata'', ''off''] \<noteq> 0
      then Inr (warning env ''Failed to disable Netdata service.'' st)
      else Inr st)"

definition install_initd_service :: "environment \<Rightarrow> shell_state \<Rightarrow> (nat \<times> shell_state) + shell_state" where
  "install_initd_service env =
     install_generic_service env ''init-d'' ''init.d'' ''/etc/init.d/netdata''
       (enable_initd env) (disable_initd env)"

definition initd_cmds :: "environment \<Rightarrow> shell_state \<Rightarrow> shell_state" where
  "initd_cmds env st =
     (if command_v env ''service'' \<noteq> []
      then st\<lparr>NETDATA_START_CMD := ''service netdata start'',
              NETDATA_STOP_CMD := ''service netdata stop''\<rparr>
      else st\<lparr>NETDATA_START_CMD := ''/etc/init.d/netdata start'',
              NETDATA_STOP_CMD := ''/etc/init.d/netdata stop''\<rparr>)"

subsection \<open>runit and WSL (lines 445 to 514)\<close>

definition isrunit :: "environment \<Rightarrow> nat" where
  "isrunit env =
     (if \<not> is_dir env ''/lib/rc/sv.d'' then 1
      else if command_v env ''runit'' = [] then 1
      else if is_dir env ''/run/runit'' then 0
      else if is_exec env ''/etc/runit/1'' then 0
      else 1)"

definition check_runit :: "environment \<Rightarrow> shell_state \<Rightarrow> nat \<times> shell_state" where
  "check_runit env st =
     (case IS_RUNIT st of
        None \<Rightarrow> (isrunit env, st\<lparr>IS_RUNIT := Some (isrunit env)\<rparr>)
      | Some rc \<Rightarrow> (rc, st))"

definition install_runit_service :: "environment \<Rightarrow> shell_state \<Rightarrow> (nat \<times> shell_state) + shell_state" where
  "install_runit_service env st =
     Inl (3, error env ''Detected runit, which we do not currently support.'' st)"

definition runit_cmds :: "environment \<Rightarrow> shell_state \<Rightarrow> (nat \<times> shell_state) + shell_state" where
  "runit_cmds env st =
     Inl (3, error env ''Detected runit, which we do not currently support.'' st)"

text \<open>
  \<^verbatim>\<open>grep -q\<close> with a pattern of letters only: the pattern occurs in the text.
\<close>

fun starts_with :: "string \<Rightarrow> string \<Rightarrow> bool" where
  "starts_with [] s = True"
| "starts_with (p # ps) [] = False"
| "starts_with (p # ps) (c # cs) = (p = c \<and> starts_with ps cs)"

fun contains :: "string \<Rightarrow> string \<Rightarrow> bool" where
  "contains pat [] = (pat = [])"
| "contains pat (c # cs) = (starts_with pat (c # cs) \<or> contains pat cs)"

definition iswsl :: "environment \<Rightarrow> nat" where
  "iswsl env =
     (if contains ''WSL'' (uname_r env) then 0
      else if contains ''Microsoft'' (uname_r env) then 0
      else 1)"

definition check_wsl :: "environment \<Rightarrow> shell_state \<Rightarrow> nat \<times> shell_state" where
  "check_wsl env st =
     (case IS_WSL st of
        None \<Rightarrow> (iswsl env, st\<lparr>IS_WSL := Some (iswsl env)\<rparr>)
      | Some rc \<Rightarrow> (rc, st))"

definition wsl_message :: string where
  "wsl_message = ''We appear to be running in WSL. Netdata cannot be automatically installed as a service under WSL.''"

definition install_wsl_service :: "environment \<Rightarrow> shell_state \<Rightarrow> (nat \<times> shell_state) + shell_state" where
  "install_wsl_service env st = Inl (3, error env wsl_message st)"

definition wsl_cmds :: "environment \<Rightarrow> shell_state \<Rightarrow> (nat \<times> shell_state) + shell_state" where
  "wsl_cmds env st = Inl (3, error env wsl_message st)"

subsection \<open>FreeBSD and macOS (lines 519 to 560)\<close>

definition enable_freebsd :: "environment \<Rightarrow> hook" where
  "enable_freebsd env st =
     (if cmd_status env [''sysrc'', ''netdata_enable=YES''] \<noteq> 0
      then Inr (warning env ''Failed to enable netdata service.'' st)
      else Inr st)"

definition disable_freebsd :: "environment \<Rightarrow> hook" where
  "disable_freebsd env st =
     (if cmd_status env [''sysrc'', ''netdata_enable=NO''] \<noteq> 0
      then Inr (warning env ''Failed to disable netdata service.'' st)
      else Inr st)"

definition install_freebsd_service :: "environment \<Rightarrow> shell_state \<Rightarrow> (nat \<times> shell_state) + shell_state" where
  "install_freebsd_service env =
     install_generic_service env ''freebsd'' ''FreeBSD rc.d'' ''/usr/local/etc/rc.d/netdata''
       (enable_freebsd env) (disable_freebsd env)"

definition freebsd_cmds :: "shell_state \<Rightarrow> shell_state" where
  "freebsd_cmds st = st\<lparr>NETDATA_START_CMD := ''service netdata start'',
                        NETDATA_STOP_CMD := ''service netdata stop'',
                        NETDATA_INSTALLER_START_CMD := ''service netdata onestart''\<rparr>"

definition install_darwin_service :: "environment \<Rightarrow> shell_state \<Rightarrow> (nat \<times> shell_state) + shell_state" where
  "install_darwin_service env st =
     (let st1 = info ''Installing macOS plist file for launchd.'' st
      in if cmd_status env [''install'', ''-C'', ''-S'', ''-p'', ''-m'', ''0644'', ''-o'', ''0'', ''-g'', ''0'',
                            ''system/netdata.plist'',
                            ''/Library/LaunchDaemons/com.github.netdata.plist''] \<noteq> 0
           then Inl (4, error env ''Failed to copy plist file.'' st1)
         else if cmd_status env [''launchctl'', ''load'',
                                 ''/Library/LaunchDaemons/com.github.netdata.plist''] \<noteq> 0
           then Inl (4, error env ''Failed to load plist file.'' st1)
         else Inr st1)"

definition darwin_cmds :: "shell_state \<Rightarrow> shell_state" where
  "darwin_cmds st = st\<lparr>NETDATA_START_CMD := ''launchctl start com.github.netdata'',
                       NETDATA_STOP_CMD := ''launchctl stop com.github.netdata''\<rparr>"

subsection \<open>Linux (lines 565 to 602)\<close>

text \<open>
  \<^verbatim>\<open>"check_${t}"\<close> for a word \<open>t\<close> of \<^verbatim>\<open>LINUX_INIT_TYPES\<close>. Any other word names no function
  (status 127); the loop never asks for one.
\<close>

definition check :: "environment \<Rightarrow> string \<Rightarrow> shell_state \<Rightarrow> (nat \<times> shell_state) option" where
  "check env t st =
     (if t = ''wsl'' then Some (check_wsl env st)
      else if t = ''systemd'' then Some (check_systemd env st)
      else if t = ''openrc'' then Some (check_openrc env st)
      else if t = ''lsb'' then Some (check_lsb env st)
      else if t = ''initd'' then check_initd env st
      else if t = ''runit'' then Some (check_runit env st)
      else Some (127, st))"

fun detect_loop :: "environment \<Rightarrow> string list \<Rightarrow> shell_state \<Rightarrow> shell_state option" where
  "detect_loop env [] st = Some st"
| "detect_loop env (t # ts) st =
     do { r \<leftarrow> check env t st;
          if fst r = 0 then Some ((snd r)\<lparr>SVC_TYPE := t\<rparr>)
          else detect_loop env ts (snd r) }"

definition detect_linux_svc_type :: "environment \<Rightarrow> shell_state \<Rightarrow> shell_state option" where
  "detect_linux_svc_type env st =
     (if SVC_TYPE st = ''detect''
      then do { st1 \<leftarrow> detect_loop env LINUX_INIT_TYPES st;
                if SVC_TYPE st1 = ''detect''
                then Some (error env ''Failed to detect what type of service manager is in use.'' st1)
                else Some (st1\<lparr>stdout := stdout st1 @ [SVC_TYPE st1]\<rparr>) }
      else Some (st\<lparr>stdout := stdout st @ [SVC_TYPE st]\<rparr>))"

text \<open>
  \<^verbatim>\<open>"install_${t}_service"\<close> and \<^verbatim>\<open>"${t}_cmds"\<close>, for the service types of Linux. A word that
  names none of them is a command the shell does not find: status 127, and \<^verbatim>\<open>set -e\<close>
  ends the script. (The other functions of the script that such a name could reach,
  such as \<^verbatim>\<open>linux_cmds\<close> itself, need a type that line 659 rejects.)
\<close>

definition install_service :: "environment \<Rightarrow> string \<Rightarrow> shell_state \<Rightarrow> (nat \<times> shell_state) + shell_state" where
  "install_service env t st =
     (if t = ''systemd'' then install_systemd_service env st
      else if t = ''openrc'' then install_openrc_service env st
      else if t = ''lsb'' then install_lsb_service env st
      else if t = ''initd'' then install_initd_service env st
      else if t = ''runit'' then install_runit_service env st
      else if t = ''wsl'' then install_wsl_service env st
      else Inl (127, st))"

definition service_cmds :: "environment \<Rightarrow> string \<Rightarrow> shell_state \<Rightarrow> (nat \<times> shell_state) + shell_state" where
  "service_cmds env t st =
     (if t = ''systemd'' then Inr (systemd_cmds st)
      else if t = ''openrc'' then Inr (openrc_cmds st)
      else if t = ''lsb'' then Inr (lsb_cmds env st)
      else if t = ''initd'' then Inr (initd_cmds env st)
      else if t = ''runit'' then runit_cmds env st
      else if t = ''wsl'' then wsl_cmds env st
      else Inl (127, st))"

definition install_linux_service ::
  "environment \<Rightarrow> shell_state \<Rightarrow> ((nat \<times> shell_state) + shell_state) option" where
  "install_linux_service env st =
     do { sub \<leftarrow> detect_linux_svc_type env (subshell_in st);
          if fst (subshell_out st sub) = [] then Some (Inl (2, snd (subshell_out st sub)))
          else Some (install_service env (fst (subshell_out st sub)) (snd (subshell_out st sub))) }"

definition linux_cmds ::
  "environment \<Rightarrow> shell_state \<Rightarrow> ((nat \<times> shell_state) + shell_state) option" where
  "linux_cmds env st =
     do { sub \<leftarrow> detect_linux_svc_type env (subshell_in st);
          if fst (subshell_out st sub) = [] then Some (Inl (2, snd (subshell_out st sub)))
          else Some (service_cmds env (fst (subshell_out st sub)) (snd (subshell_out st sub))) }"

subsection \<open>Argument handling (lines 607 to 664)\<close>

text \<open>
  The \<^verbatim>\<open>while [ -n "${1}" ]\<close> loop over the positional parameters. It ends at the first
  empty word. An option that takes a value does \<^verbatim>\<open>shift 1\<close> twice; when the option is the
  last word the second \<^verbatim>\<open>shift 1\<close> fails, and under \<^verbatim>\<open>set -e\<close> the script ends there.
\<close>

fun parse_loop :: "environment \<Rightarrow> string list \<Rightarrow> shell_state \<Rightarrow> (nat \<times> shell_state) + shell_state" where
  "parse_loop env [] st = Inr st"
| "parse_loop env (a # rest) st =
     (if a = [] then Inr st
      else if a = ''--source'' \<or> a = ''-s'' then
        (case rest of
           [] \<Rightarrow> Inl (shift_fail_status env, st\<lparr>SVC_SOURCE := []\<rparr>)
         | v # rest' \<Rightarrow> parse_loop env rest' (st\<lparr>SVC_SOURCE := v\<rparr>))
      else if a = ''--type'' \<or> a = ''-t'' then
        (case rest of
           [] \<Rightarrow> Inl (shift_fail_status env, st\<lparr>SVC_TYPE := []\<rparr>)
         | v # rest' \<Rightarrow>
             if v = ''help'' then Inl (0, help_types env st)
             else parse_loop env rest' (st\<lparr>SVC_TYPE := v\<rparr>))
      else if a = ''--save-cmds'' then
        (case rest of
           [] \<Rightarrow> Inl (1, info ''No path specified to save command variables.'' st)
         | v # rest' \<Rightarrow>
             if v = [] then Inl (1, info ''No path specified to save command variables.'' st)
             else parse_loop env rest' (st\<lparr>SAVE_CMDS_PATH := v\<rparr>))
      else if a = ''--cmds'' \<or> a = ''-c'' then parse_loop env rest (st\<lparr>DUMP_CMDS := 1\<rparr>)
      else if a = ''--cmds-only'' then parse_loop env rest (st\<lparr>INSTALL := 0\<rparr>)
      else if a = ''--export-cmds'' then parse_loop env rest (st\<lparr>EXPORT_CMDS := 1\<rparr>)
      else if a = ''--enable'' \<or> a = ''-e'' then parse_loop env rest (st\<lparr>ENABLE := ''enable''\<rparr>)
      else if a = ''--disable'' \<or> a = ''-d'' then parse_loop env rest (st\<lparr>ENABLE := ''disable''\<rparr>)
      else if a = ''--help'' \<or> a = ''-h'' then Inl (0, usage st)
      else Inl (1, info (''Unrecognized option '' @ squote @ a @ squote @ ''.'') st))"

text \<open>\<^verbatim>\<open>${SVC_SOURCE#@}\<close>: the value without one leading \<^verbatim>\<open>@\<close>.\<close>

fun strip_at :: "string \<Rightarrow> string" where
  "strip_at [] = []"
| "strip_at (c # cs) = (if c = CHR ''@'' then cs else c # cs)"

definition parse_args :: "environment \<Rightarrow> string list \<Rightarrow> shell_state \<Rightarrow> (nat \<times> shell_state) + shell_state" where
  "parse_args env args st =
     (case parse_loop env args st of
        Inl e \<Rightarrow> Inl e
      | Inr st1 \<Rightarrow>
          (let st2 = (if strip_at (SVC_SOURCE st1) = ''libsysdir_POST@''
                      then warning env
                             (''SVC_SOURCE not templated, using '' @
                              script_dir env @ ''/../../lib/netdata/system'' @ '' as source directory.'')
                             (st1\<lparr>SVC_SOURCE := script_dir env @ ''/../../lib/netdata/system''\<rparr>)
                      else st1)
           in if \<not> is_dir env (SVC_SOURCE st2) \<and> INSTALL st2 = 1
                then Inl (1, error env (SVC_SOURCE st2 @ '' does not appear to be a directory. Please specify a valid source for service files with the --source option.'') st2)
              else if grep_vw_selects env (SVC_TYPE st2) (valid_types env)
                then Inl (1, help_types env
                               (error env (SVC_TYPE st2 @ '' is not supported on this platform.'')
                                  (st2\<lparr>stdout := stdout st2 @ [valid_types env]\<rparr>)))
              else Inr st2))"

subsection \<open>Core logic (lines 669 to 699)\<close>

text \<open>
  \<open>main_platform\<close> is the \<^verbatim>\<open>case "${PLATFORM}"\<close> of \<open>main\<close>, \<open>main_finish\<close> the four lines
  after it, which end in \<^verbatim>\<open>exit 0\<close> unless \<open>save_cmds\<close> fails under \<^verbatim>\<open>set -e\<close>. \<open>main\<close>
  gives the exit status of the script and the state it ends in, after the \<^verbatim>\<open>EXIT\<close> trap
  has run; \<open>None\<close> when the script never ends.
\<close>

definition main_platform ::
  "environment \<Rightarrow> shell_state \<Rightarrow> ((nat \<times> shell_state) + shell_state) option" where
  "main_platform env st =
     (if uname_s env = ''FreeBSD'' then
        (case (if INSTALL st = 1 then install_freebsd_service env st else Inr st) of
           Inl e \<Rightarrow> Some (Inl e)
         | Inr st1 \<Rightarrow> Some (Inr (freebsd_cmds st1)))
      else if uname_s env = ''Darwin'' then
        (case (if INSTALL st = 1 then install_darwin_service env st else Inr st) of
           Inl e \<Rightarrow> Some (Inl e)
         | Inr st1 \<Rightarrow> Some (Inr (darwin_cmds st1)))
      else if uname_s env = ''Linux'' then
        do { r \<leftarrow> (if INSTALL st = 1 then install_linux_service env st else Some (Inr st));
             case r of
               Inl e \<Rightarrow> Some (Inl e)
             | Inr st1 \<Rightarrow> linux_cmds env st1 }
      else Some (Inl (5, error env (uname_s env @ '' is not supported by this script.'') st)))"

definition main_finish :: "environment \<Rightarrow> shell_state \<Rightarrow> nat \<times> shell_state" where
  "main_finish env st =
     (let st1 = (if DUMP_CMDS st = 1 then dump_cmds st else st);
          st2 = (if EXPORT_CMDS st1 = 1 then export_cmds env st1 else st1)
      in if SAVE_CMDS_PATH st2 \<noteq> []
         then (case save_cmds env st2 of Inl e \<Rightarrow> e | Inr st3 \<Rightarrow> (0, st3))
         else (0, st2))"

definition main :: "environment \<Rightarrow> string list \<Rightarrow> (nat \<times> shell_state) option" where
  "main env args =
     (case parse_args env args (initial_state env) of
        Inl (ec, st) \<Rightarrow> Some (cleanup env ec st)
      | Inr st \<Rightarrow>
          do { r \<leftarrow> main_platform env st;
               case r of
                 Inl (ec, st1) \<Rightarrow> Some (cleanup env ec st1)
               | Inr st1 \<Rightarrow>
                   Some (cleanup env (fst (main_finish env st1)) (snd (main_finish env st1))) })"

subsection \<open>Machines the script is evaluated on\<close>

text \<open>
  \<^verbatim>\<open>grep -vw\<close> for a pattern of letters only, on one line of words separated by single
  blanks: the line is selected when none of its words is the pattern.
\<close>

fun split_words :: "string \<Rightarrow> string list" where
  "split_words [] = [[]]"
| "split_words (c # cs) =
     (if c = CHR '' '' then [] # split_words cs
      else (case split_words cs of w # ws \<Rightarrow> (c # w) # ws | [] \<Rightarrow> [[c]]))"

definition grep_vw_literal :: "string \<Rightarrow> string \<Rightarrow> bool" where
  "grep_vw_literal pat line = (pat \<notin> set (split_words line))"

text \<open>
  \<open>bare_machine\<close>: a Linux host with the templated source directory in place and no
  service manager on it; every external command succeeds and prints nothing, and the
  process inherits no variable. The other machines differ from it in the named fields.
\<close>

definition bare_machine :: environment where
  "bare_machine =
     \<lparr> uname_s = ''Linux'',
       uname_r = ''5.10.0-8-amd64'',
       getenv = (\<lambda>name. []),
       inherited_status = (\<lambda>name. None),
       svc_source_templated = ''/usr/lib/netdata/system'',
       script_dir = ''/usr/libexec/netdata'',
       is_dir = (\<lambda>p. p = ''/usr/lib/netdata/system''),
       is_file = (\<lambda>p. False),
       is_exec = (\<lambda>p. False),
       is_writable = (\<lambda>p. False),
       path_exists = (\<lambda>p. False),
       command_v = (\<lambda>c. []),
       pid1_exe_basename = ''init'',
       safe_pidof = (\<lambda>c. []),
       readlink = (\<lambda>p. []),
       grep_vw_selects = grep_vw_literal,
       cmd_status = (\<lambda>argv. 0),
       cmd_output = (\<lambda>argv. []),
       systemctl_version_le_235 = False,
       runlevel_dirs = [],
       can_write_file = (\<lambda>p. True),
       shift_fail_status = 2,
       redirect_fail_status = 2 \<rparr>"

text \<open>A host with \<^verbatim>\<open>/etc/init.d\<close> and \<^verbatim>\<open>chkconfig\<close>, and neither systemd, OpenRC nor LSB.\<close>

definition chkconfig_machine :: environment where
  "chkconfig_machine =
     bare_machine\<lparr> is_dir := (\<lambda>p. p = ''/usr/lib/netdata/system'' \<or> p = ''/etc/init.d''),
                   command_v := (\<lambda>c. if c = ''chkconfig'' then ''/sbin/chkconfig'' else []) \<rparr>"

definition sunos_machine :: environment where
  "sunos_machine = bare_machine\<lparr> uname_s := ''SunOS'' \<rparr>"

definition freebsd_machine :: environment where
  "freebsd_machine = bare_machine\<lparr> uname_s := ''FreeBSD'' \<rparr>"

section \<open>The metadata log API \<^verbatim>\<open>src/database/engine/metadata_log/metadatalogapi.h\<close>\<close>

text \<open>
  The header declares \<^verbatim>\<open>metalog_commit_delete_chart\<close>, \<^verbatim>\<open>metalog_delete_dimension_by_uuid\<close>
  and \<^verbatim>\<open>metalog_init\<close>; the sources hold none of their bodies, nor the types they take.
  The definitions of this section are therefore written from the specification, each
  under a note that says so.
\<close>

subsection \<open>Data model\<close>

text \<open>
  Modelled from the spec: the type \<^verbatim>\<open>uuid_t\<close> is missing; section 3 has
  ``MetricUUID -- 128-bit stable identifier for a dimension''.
\<close>

type_synonym uuid_t = "128 word"

text \<open>
  Modelled from the spec: the record type of the log is missing; section 3 has
  ``a tagged event: {DeleteChart(chart id), DeleteDimension(MetricUUID)}, each carrying
  a monotonically increasing sequence number'', section 6 the stored fields
  ``{sequenceNumber, tag, id}''.
\<close>

datatype metalog_event = DeleteChart uuid_t | DeleteDimension uuid_t

record metalog_record =
  sequenceNumber :: nat
  event :: metalog_event

text \<open>
  Modelled from the spec: the type \<^verbatim>\<open>RRDSET\<close> is missing; section 3 has ``Chart -- a named
  collection of Dimensions ... Owns its Dimensions'', each dimension identified by its
  MetricUUID.
\<close>

record RRDSET =
  chart_id :: uuid_t
  dimensions :: "uuid_t list"

text \<open>
  Modelled from the spec: the UUID Index is missing; section 4.1 has its contract
  ``lookup(uuid) -> location-or-absent, insert(uuid, location), markDeleted(uuid),
  isDeleted(uuid) -> bool''. A location is kept abstract (a number).
\<close>

record uuid_index =
  locations :: "uuid_t \<rightharpoonup> nat"
  deleted :: "uuid_t set"

definition lookup :: "uuid_t \<Rightarrow> uuid_index \<Rightarrow> nat option" where
  "lookup u idx = locations idx u"

definition insert_location :: "uuid_t \<Rightarrow> nat \<Rightarrow> uuid_index \<Rightarrow> uuid_index" where
  "insert_location u loc idx = idx\<lparr>locations := (locations idx)(u \<mapsto> loc)\<rparr>"

definition markDeleted :: "uuid_t \<Rightarrow> uuid_index \<Rightarrow> uuid_index" where
  "markDeleted u idx = idx\<lparr>deleted := insert u (deleted idx)\<rparr>"

definition isDeleted :: "uuid_t \<Rightarrow> uuid_index \<Rightarrow> bool" where
  "isDeleted u idx = (u \<in> deleted idx)"

text \<open>
  Modelled from the spec: the log file and \<^verbatim>\<open>struct metalog_instance\<close> are missing. Section 6
  has the file as ``an append-only sequence of fixed-size tagged records''; a stored
  record whose sequence number cannot be read (section 4.5) is \<open>None\<close>. At start the file
  is absent, or present with its records, or ``unreadable/corrupt beyond the recoverable
  tail'' (section 4.4). The instance keeps what is durable on the file apart from what
  was appended and is not yet durable, since section 4.4 speaks of records being durable
  when a call returns; it also holds the index it marks and the next sequence number.
\<close>

datatype log_file = Absent | Unreadable | Present "metalog_record option list"

record metalog_instance =
  durable :: "metalog_record option list"
  pending :: "metalog_record option list"
  index :: uuid_index
  next_sequence :: nat

text \<open>
  Modelled from the spec: \<^verbatim>\<open>struct rrdengine_instance\<close> is missing; of the engine context
  \<open>metalog_init\<close> needs the UUID Index (section 4.5 fills it from the journals before the
  deletions are applied) and the log file.
\<close>

record rrdengine_instance =
  engine_index :: uuid_index
  metalog_file :: log_file

datatype fatal_error = FatalInitError

subsection \<open>Replay\<close>

text \<open>
  Modelled from the spec: the scan of the log is missing; section 4.5 has ``read all
  Metadata Log Records in sequence-number order; truncate at the first record with a
  discontinuous or unreadable sequence number''. The first record sets the number the
  scan starts from; after a record numbered \<open>n\<close> the next one must be numbered \<open>n + 1\<close>.
\<close>

fun scan_from :: "nat \<Rightarrow> metalog_record option list \<Rightarrow> metalog_record list" where
  "scan_from n [] = []"
| "scan_from n (None # es) = []"
| "scan_from n (Some r # es) =
     (if sequenceNumber r = n then r # scan_from (Suc n) es else [])"

fun scan_metadata_log :: "metalog_record option list \<Rightarrow> metalog_record list" where
  "scan_metadata_log [] = []"
| "scan_metadata_log (None # es) = []"
| "scan_metadata_log (Some r # es) = r # scan_from (Suc (sequenceNumber r)) es"

text \<open>
  Modelled from the spec: the replay is missing; section 4.4 has ``replays existing
  records into the UUID Index (marking UUIDs deleted)''. The index is keyed by
  MetricUUID, so a DeleteDimension record marks its MetricUUID; a DeleteChart record
  carries a chart id and marks nothing itself: the dimensions of the chart have their
  own records.
\<close>

definition replay_record :: "metalog_record \<Rightarrow> uuid_index \<Rightarrow> uuid_index" where
  "replay_record r idx =
     (case event r of
        DeleteDimension u \<Rightarrow> markDeleted u idx
      | DeleteChart c \<Rightarrow> idx)"

definition replay :: "metalog_record list \<Rightarrow> uuid_index \<Rightarrow> uuid_index" where
  "replay rs idx = fold replay_record rs idx"

text \<open>
  Modelled from the spec: the body of \<^verbatim>\<open>metalog_init\<close> is missing; section 4.4 has
  ``opens/creates the log file, replays existing records into the UUID Index (marking
  UUIDs deleted), and establishes the next sequence number. Fails fatally if the log
  file exists but is unreadable/corrupt beyond the recoverable tail.'' The file is cut
  at the point where the scan stops (section 4.5: ``truncate''). The spec does not say
  which number a new log starts with; it is 0 here.
\<close>

definition metalog_init :: "rrdengine_instance \<Rightarrow> fatal_error + metalog_instance" where
  "metalog_init rrdeng_parent_ctx =
     (case metalog_file rrdeng_parent_ctx of
        Absent \<Rightarrow>
          Inr \<lparr> durable = [], pending = [], index = engine_index rrdeng_parent_ctx,
                next_sequence = 0 \<rparr>
      | Unreadable \<Rightarrow> Inl FatalInitError
      | Present es \<Rightarrow>
          Inr \<lparr> durable = map Some (scan_metadata_log es),
                pending = [],
                index = replay (scan_metadata_log es) (engine_index rrdeng_parent_ctx),
                next_sequence = (if scan_metadata_log es = [] then 0
                                 else Suc (sequenceNumber (last (scan_metadata_log es)))) \<rparr>)"

subsection \<open>Appending\<close>

text \<open>
  Modelled from the spec: the append path is missing; section 4.4 has records appended
  ``within one durable append batch''. \<open>append_records\<close> writes a batch to the file,
  \<open>sync_log\<close> makes what was written durable.
\<close>

definition append_records :: "metalog_record list \<Rightarrow> metalog_instance \<Rightarrow> metalog_instance" where
  "append_records rs ctx = ctx\<lparr>pending := pending ctx @ map Some rs\<rparr>"

definition sync_log :: "metalog_instance \<Rightarrow> metalog_instance" where
  "sync_log ctx = ctx\<lparr>durable := durable ctx @ pending ctx, pending := []\<rparr>"

fun dimension_records :: "nat \<Rightarrow> uuid_t list \<Rightarrow> metalog_record list" where
  "dimension_records n [] = []"
| "dimension_records n (u # us) =
     \<lparr>sequenceNumber = n, event = DeleteDimension u\<rparr> # dimension_records (Suc n) us"

text \<open>
  Modelled from the spec: the body of \<^verbatim>\<open>metalog_commit_delete_chart\<close> is missing; section 4.4
  has ``synchronously appends one DeleteChart record (sequence N) then, for every
  Dimension owned by chart, appends a DeleteDimension record -- all within one durable
  append batch -- and marks each owned MetricUUID deleted in the UUID Index before
  returning.''
\<close>

definition delete_chart_batch :: "nat \<Rightarrow> RRDSET \<Rightarrow> metalog_record list" where
  "delete_chart_batch n st =
     \<lparr>sequenceNumber = n, event = DeleteChart (chart_id st)\<rparr>
     # dimension_records (Suc n) (dimensions st)"

definition metalog_commit_delete_chart :: "RRDSET \<Rightarrow> metalog_instance \<Rightarrow> metalog_instance" where
  "metalog_commit_delete_chart st ctx =
     (let batch = delete_chart_batch (next_sequence ctx) st;
          ctx1 = sync_log (append_records batch ctx)
      in ctx1\<lparr>index := fold markDeleted (dimensions st) (index ctx1),
              next_sequence := next_sequence ctx + length batch\<rparr>)"

text \<open>
  Modelled from the spec: the body of \<^verbatim>\<open>metalog_delete_dimension_by_uuid\<close> is missing;
  section 4.4 has ``appends a single DeleteDimension record and marks the UUID
  deleted'', section 6 ``durable on return''.
\<close>

definition metalog_delete_dimension_by_uuid :: "metalog_instance \<Rightarrow> uuid_t \<Rightarrow> metalog_instance" where
  "metalog_delete_dimension_by_uuid ctx metric_uuid =
     (let ctx1 = sync_log (append_records
                   [\<lparr>sequenceNumber = next_sequence ctx, event = DeleteDimension metric_uuid\<rparr>] ctx)
      in ctx1\<lparr>index := markDeleted metric_uuid (index ctx1),
              next_sequence := Suc (next_sequence ctx)\<rparr>)"

subsection \<open>Crash and restart\<close>

text \<open>
  Modelled from the spec: the crash model is the spec's notion of durability (sections
  4.4, 4.5). After a crash the file holds what was durable, then the first \<open>n\<close> of the
  records appended and not yet durable, then possibly one torn record. A restart is
  \<open>metalog_init\<close> on that file, with whatever index the journals gave.
\<close>

definition crash :: "nat \<Rightarrow> bool \<Rightarrow> metalog_instance \<Rightarrow> log_file" where
  "crash n torn ctx =
     Present (durable ctx @ take n (pending ctx) @
              (if torn \<and> n < length (pending ctx) then [None] else []))"

definition restart :: "uuid_index \<Rightarrow> nat \<Rightarrow> bool \<Rightarrow> metalog_instance \<Rightarrow> fatal_error + metalog_instance" where
  "restart idx n torn ctx = metalog_init \<lparr>engine_index = idx, metalog_file = crash n torn ctx\<rparr>"

text \<open>
  The instances a process can hold: the one \<open>metalog_init\<close> gave (for any file and index,
  so also after any restart), and the ones the two deletion calls make of it.
\<close>

inductive reachable :: "metalog_instance \<Rightarrow> bool" where
  init: "metalog_init rrdeng_parent_ctx = Inr ctx \<Longrightarrow> reachable ctx"
| commit_delete_chart: "reachable ctx \<Longrightarrow> reachable (metalog_commit_delete_chart st ctx)"
| delete_dimension: "reachable ctx \<Longrightarrow> reachable (metalog_delete_dimension_by_uuid ctx metric_uuid)"

text \<open>
  The invariant of the reachable instances: nothing is left pending between calls, every
  durable record is readable, the records are numbered consecutively from the first one,
  and the next sequence number continues the numbering.
\<close>

fun numbered_from :: "nat \<Rightarrow> metalog_record option list \<Rightarrow> bool" where
  "numbered_from n [] = True"
| "numbered_from n (None # es) = False"
| "numbered_from n (Some r # es) = (sequenceNumber r = n \<and> numbered_from (Suc n) es)"

definition well_formed :: "metalog_instance \<Rightarrow> bool" where
  "well_formed ctx =
     (pending ctx = [] \<and>
      (case durable ctx of
         [] \<Rightarrow> True
       | None # es \<Rightarrow> False
       | Some r # es \<Rightarrow>
           numbered_from (sequenceNumber r) (durable ctx) \<and>
           next_sequence ctx = sequenceNumber r + length (durable ctx)))"

text \<open>A chart with three dimensions, and the instance of a first start with an empty index.\<close>

definition chart3 :: RRDSET where
  "chart3 = \<lparr>chart_id = 7, dimensions = [11, 12, 13]\<rparr>"

definition empty_index :: uuid_index where
  "empty_index = \<lparr>locations = Map.empty, deleted = {}\<rparr>"

definition first_start :: metalog_instance where
  "first_start = \<lparr>durable = [], pending = [], index = empty_index, next_sequence = 0\<rparr>"

section \<open>Properties of the service installer\<close>

subsection \<open>Unsupported platforms\<close>

text \<open>
  C8. When the arguments parse without an early exit and \<^verbatim>\<open>uname -s\<close> reports a platform
  other than Linux, FreeBSD and Darwin, \<open>main\<close> prints the error
  ``<platform> is not supported by this script.'' on standard error and the script
  exits with status 5 (the \<^verbatim>\<open>EXIT\<close> trap keeps the status).
\<close>

theorem main_unsupported_platform:
  assumes "parse_args env args (initial_state env) = Inr st"
    and "uname_s env \<noteq> ''Linux''" and "uname_s env \<noteq> ''FreeBSD''" and "uname_s env \<noteq> ''Darwin''"
  shows "main env args =
           Some (5, snd (cleanup env 5 (error env (uname_s env @ '' is not supported by this script.'') st)))
         \<and> stderr (snd (cleanup env 5 (error env (uname_s env @ '' is not supported by this script.'') st)))
             = stderr st @ [''ERROR: '' @ uname_s env @ '' is not supported by this script.'']"
  using assms
  by (simp add: main_def main_platform_def cleanup_def error_def save_warning_def Let_def)

lemma parse_args_sunos:
  "parse_args sunos_machine [''--cmds'', ''--cmds-only''] (initial_state sunos_machine)
     = Inr ((initial_state sunos_machine)\<lparr>DUMP_CMDS := 1, INSTALL := 0\<rparr>)"
  by (simp add: parse_args_def sunos_machine_def bare_machine_def initial_state_def valid_types_def
      grep_vw_literal_def)

theorem main_unsupported_platform_witness:
  "main sunos_machine [''--cmds'', ''--cmds-only''] =
     Some (5, (initial_state sunos_machine)
               \<lparr>DUMP_CMDS := 1, INSTALL := 0,
                stderr := [''ERROR: SunOS is not supported by this script.'']\<rparr>)"
  using main_unsupported_platform [OF parse_args_sunos]
  by (simp add: sunos_machine_def bare_machine_def cleanup_def error_def save_warning_def
      initial_state_def)

subsection \<open>The commands printed and the commands exported\<close>

text \<open>
  \<open>export_cmds\<close> exports the start and the stop command with the values \<open>dump_cmds\<close>
  prints. The installer start command is exported with the value of another variable.
\<close>

lemma export_cmds_start_stop:
  "NETDATA_START_CMD (export_cmds env st) = NETDATA_START_CMD st
   \<and> NETDATA_STOP_CMD (export_cmds env st) = NETDATA_STOP_CMD st"
  by (simp add: export_cmds_def Let_def)

lemma export_cmds_installer_start:
  "NETDATA_INSTALLER_START_CMD st \<noteq> [] \<Longrightarrow>
     NETDATA_INSTALLER_START_CMD (export_cmds env st) = getenv env ''NETDATA_INSTALLER_START_COMMAND''"
  by (simp add: export_cmds_def Let_def)

lemma parse_args_freebsd:
  "parse_args freebsd_machine [''--cmds-only'', ''--cmds'', ''--export-cmds'']
       (initial_state freebsd_machine)
     = Inr ((initial_state freebsd_machine)\<lparr>INSTALL := 0, DUMP_CMDS := 1, EXPORT_CMDS := 1\<rparr>)"
  by (simp add: parse_args_def freebsd_machine_def bare_machine_def initial_state_def valid_types_def
      grep_vw_literal_def)

lemma main_platform_freebsd:
  "main_platform freebsd_machine ((initial_state freebsd_machine)\<lparr>INSTALL := 0, DUMP_CMDS := 1, EXPORT_CMDS := 1\<rparr>)
     = Some (Inr ((initial_state freebsd_machine)
          \<lparr>INSTALL := 0, DUMP_CMDS := 1, EXPORT_CMDS := 1,
           NETDATA_START_CMD := ''service netdata start'',
           NETDATA_STOP_CMD := ''service netdata stop'',
           NETDATA_INSTALLER_START_CMD := ''service netdata onestart''\<rparr>))"
  by (simp add: main_platform_def freebsd_cmds_def freebsd_machine_def bare_machine_def initial_state_def)

lemma main_finish_freebsd:
  "main_finish freebsd_machine ((initial_state freebsd_machine)
          \<lparr>INSTALL := 0, DUMP_CMDS := 1, EXPORT_CMDS := 1,
           NETDATA_START_CMD := ''service netdata start'',
           NETDATA_STOP_CMD := ''service netdata stop'',
           NETDATA_INSTALLER_START_CMD := ''service netdata onestart''\<rparr>)
     = (0, (initial_state freebsd_machine)
       \<lparr>DUMP_CMDS := 1, EXPORT_CMDS := 1, INSTALL := 0,
        NETDATA_START_CMD := ''service netdata start'',
        NETDATA_STOP_CMD := ''service netdata stop'',
        NETDATA_INSTALLER_START_CMD := [],
        exported := [''NETDATA_START_CMD'', ''NETDATA_STOP_CMD'', ''NETDATA_INSTALLER_START_CMD''],
        stdout := [''NETDATA_START_CMD='' @ squote @ ''service netdata start'' @ squote,
                   ''NETDATA_STOP_CMD='' @ squote @ ''service netdata stop'' @ squote,
                   ''NETDATA_INSTALLER_START_CMD='' @ squote @ ''service netdata onestart'' @ squote]\<rparr>)"
  by (simp add: main_finish_def dump_cmds_def dump_lines_def export_cmds_def
      freebsd_machine_def bare_machine_def initial_state_def Let_def)

text \<open>
  C9. The claim is that, once \<open>main\<close> has computed the service commands, the value
  \<^verbatim>\<open>--cmds\<close> prints for each of the three variables that is set equals the value
  \<^verbatim>\<open>--export-cmds\<close> exports. On FreeBSD, called with
  \<^verbatim>\<open>--cmds-only --cmds --export-cmds\<close>, the script prints
  \<^verbatim>\<open>NETDATA_INSTALLER_START_CMD='service netdata onestart'\<close> and exports
  \<^verbatim>\<open>NETDATA_INSTALLER_START_CMD\<close> with the empty value: line 142 reads
  \<^verbatim>\<open>NETDATA_INSTALLER_START_COMMAND\<close>, which is set nowhere.
\<close>

theorem export_cmds_installer_start_differs:
  "main freebsd_machine [''--cmds-only'', ''--cmds'', ''--export-cmds''] =
     Some (0, (initial_state freebsd_machine)
       \<lparr>DUMP_CMDS := 1, EXPORT_CMDS := 1, INSTALL := 0,
        NETDATA_START_CMD := ''service netdata start'',
        NETDATA_STOP_CMD := ''service netdata stop'',
        NETDATA_INSTALLER_START_CMD := [],
        exported := [''NETDATA_START_CMD'', ''NETDATA_STOP_CMD'', ''NETDATA_INSTALLER_START_CMD''],
        stdout := [''NETDATA_START_CMD='' @ squote @ ''service netdata start'' @ squote,
                   ''NETDATA_STOP_CMD='' @ squote @ ''service netdata stop'' @ squote,
                   ''NETDATA_INSTALLER_START_CMD='' @ squote @ ''service netdata onestart'' @ squote]\<rparr>)"
proof -
  have c: "cleanup freebsd_machine ec st = (ec, st)" for ec st
    by (simp add: cleanup_def freebsd_machine_def bare_machine_def)
  show ?thesis
    by (simp only: main_def parse_args_freebsd main_platform_freebsd main_finish_freebsd c
        sum.case prod.case Option.bind.bind_lunit fst_conv snd_conv)
qed

subsection \<open>Detection of the Linux service type\<close>

text \<open>
  A call of \<open>isinitd\<close> or \<open>check_initd\<close> that returns was not made with \<^verbatim>\<open>/etc/init.d\<close>
  present, \<^verbatim>\<open>chkconfig\<close> available and \<^verbatim>\<open>IS_INITD\<close> unset: there \<open>check_initd\<close> calls
  \<open>isinitd\<close>, which calls \<open>check_initd\<close> in the same state.
\<close>

lemma initd_call_returns:
  assumes "initd_call env f st = Some y"
  shows "\<not> (is_dir env ''/etc/init.d'' \<and> command_v env ''chkconfig'' \<noteq> [] \<and> IS_INITD st = None)"
proof (rule initd_call.raw_induct
    [where P = "\<lambda>env f st y. \<not> (is_dir env ''/etc/init.d'' \<and> command_v env ''chkconfig'' \<noteq> []
                                  \<and> IS_INITD st = None)",
     OF _ assms], goal_cases)
  case (1 call env f st y)
  show ?case
  proof (cases f)
    case Isinitd
    with 1 show ?thesis by (fastforce split: if_splits Option.bind_splits)
  next
    case Check_initd
    with 1 show ?thesis by (fastforce split: if_splits option.splits Option.bind_splits)
  qed
qed

lemma check_initd_diverges:
  "is_dir env ''/etc/init.d'' \<Longrightarrow> command_v env ''chkconfig'' \<noteq> [] \<Longrightarrow> IS_INITD st = None
     \<Longrightarrow> check_initd env st = None"
  using initd_call_returns [of env Check_initd st]
  by (cases "check_initd env st") (auto simp: check_initd_def)

lemma isinitd_not_initd:
  assumes "\<not> is_dir env ''/etc/init.d'' \<or> command_v env ''chkconfig'' = []"
  shows "isinitd env st = Some (1, st)"
  unfolding isinitd_def using assms by (subst initd_call.simps) auto

lemma check_initd_cached:
  assumes "IS_INITD st = Some rc"
  shows "check_initd env st = Some (rc, st)"
  unfolding check_initd_def using assms by (subst initd_call.simps) simp

lemma check_initd_not_initd:
  assumes "\<not> is_dir env ''/etc/init.d'' \<or> command_v env ''chkconfig'' = []"
    and "IS_INITD st = None"
  shows "check_initd env st = Some (1, st\<lparr>IS_INITD := Some 1\<rparr>)"
proof -
  from isinitd_not_initd [OF assms(1)] have "initd_call env Isinitd st = Some (1, st)"
    by (simp add: isinitd_def)
  with assms(2) show ?thesis
    unfolding check_initd_def by (subst initd_call.simps) simp
qed

text \<open>
  Everywhere else the detection returns: no check before \<open>check_initd\<close> assigns
  \<^verbatim>\<open>IS_INITD\<close>, and the other checks make no recursive call.
\<close>

lemma check_initd_total:
  assumes "\<not> is_dir env ''/etc/init.d'' \<or> command_v env ''chkconfig'' = [] \<or> IS_INITD st \<noteq> None"
  shows "\<exists>r. check_initd env st = Some r"
proof (cases "IS_INITD st")
  case None
  with assms have "\<not> is_dir env ''/etc/init.d'' \<or> command_v env ''chkconfig'' = []" by simp
  from check_initd_not_initd [OF this None] show ?thesis by simp
next
  case (Some rc)
  from check_initd_cached [OF this] show ?thesis by simp
qed

lemma IS_INITD_check_wsl: "IS_INITD (snd (check_wsl env st)) = IS_INITD st"
  by (simp add: check_wsl_def split: option.splits)

lemma IS_INITD_check_systemd: "IS_INITD (snd (check_systemd env st)) = IS_INITD st"
  by (simp add: check_systemd_def split: option.splits)

lemma IS_INITD_check_openrc: "IS_INITD (snd (check_openrc env st)) = IS_INITD st"
  by (simp add: check_openrc_def split: option.splits)

lemma IS_INITD_check_lsb: "IS_INITD (snd (check_lsb env st)) = IS_INITD st"
  by (simp add: check_lsb_def islsb_def Let_def IS_INITD_check_openrc split: option.splits)

lemma detect_loop_after_initd:
  "\<exists>st'. detect_loop env [''runit''] st = Some st'"
  by (simp add: check_def)

lemma detect_loop_from_initd:
  assumes "\<not> is_dir env ''/etc/init.d'' \<or> command_v env ''chkconfig'' = [] \<or> IS_INITD st \<noteq> None"
  shows "\<exists>st'. detect_loop env [''initd'', ''runit''] st = Some st'"
proof -
  from check_initd_total [OF assms] obtain r where r: "check_initd env st = Some r" ..
  from detect_loop_after_initd obtain st' where "detect_loop env [''runit''] (snd r) = Some st'" ..
  with r show ?thesis by (simp add: check_def)
qed

lemma detect_loop_returns:
  assumes "\<not> is_dir env ''/etc/init.d'' \<or> command_v env ''chkconfig'' = [] \<or> IS_INITD st \<noteq> None"
  shows "\<exists>st'. detect_loop env LINUX_INIT_TYPES st = Some st'"
proof -
  define s1 where "s1 = snd (check_wsl env st)"
  define s2 where "s2 = snd (check_systemd env s1)"
  define s3 where "s3 = snd (check_openrc env s2)"
  define s4 where "s4 = snd (check_lsb env s3)"
  have "IS_INITD s4 = IS_INITD st"
    by (simp add: s1_def s2_def s3_def s4_def IS_INITD_check_wsl IS_INITD_check_systemd
        IS_INITD_check_openrc IS_INITD_check_lsb)
  with assms have "\<not> is_dir env ''/etc/init.d'' \<or> command_v env ''chkconfig'' = [] \<or> IS_INITD s4 \<noteq> None"
    by simp
  from detect_loop_from_initd [OF this] obtain st' where
    "detect_loop env [''initd'', ''runit''] s4 = Some st'" ..
  then show ?thesis
    by (simp add: LINUX_INIT_TYPES_def check_def s1_def s2_def s3_def s4_def)
qed

lemma detect_linux_svc_type_returns:
  assumes "\<not> is_dir env ''/etc/init.d'' \<or> command_v env ''chkconfig'' = [] \<or> IS_INITD st \<noteq> None"
  shows "\<exists>st'. detect_linux_svc_type env st = Some st'"
proof -
  from detect_loop_returns [OF assms] obtain st' where "detect_loop env LINUX_INIT_TYPES st = Some st'" ..
  then show ?thesis by (simp add: detect_linux_svc_type_def)
qed

text \<open>
  C10. The claim is that \<open>detect_linux_svc_type\<close> terminates in every environment, and
  the pair \<open>check_initd\<close>, \<open>isinitd\<close> with it. On a host with \<^verbatim>\<open>/etc/init.d\<close> and
  \<^verbatim>\<open>chkconfig\<close> that is neither WSL, systemd, OpenRC nor LSB, started with the default
  type \<^verbatim>\<open>detect\<close> and no inherited \<^verbatim>\<open>IS_INITD\<close>, the detection reaches \<open>check_initd\<close> and
  never returns: it neither prints a type nor reports a failure.
\<close>

theorem detect_linux_svc_type_never_returns:
  "detect_linux_svc_type chkconfig_machine (initial_state chkconfig_machine) = None"
  by (simp add: detect_linux_svc_type_def initial_state_def LINUX_INIT_TYPES_def check_def
    check_wsl_def iswsl_def check_systemd_def issystemd_def check_openrc_def isopenrc_def
    check_lsb_def islsb_def chkconfig_machine_def bare_machine_def check_initd_diverges)

section \<open>Properties of the metadata log\<close>

subsection \<open>The invariant\<close>

lemma numbered_from_append:
  "numbered_from n (es @ es') \<longleftrightarrow> numbered_from n es \<and> numbered_from (n + length es) es'"
proof (induction es arbitrary: n)
  case Nil
  then show ?case by simp
next
  case (Cons e es)
  then show ?case by (cases e) auto
qed

lemma scan_from_numbered:
  "numbered_from n es \<Longrightarrow> scan_from n (es @ es') = map the es @ scan_from (n + length es) es'"
proof (induction es arbitrary: n)
  case Nil
  then show ?case by simp
next
  case (Cons e es)
  then show ?case by (cases e) auto
qed

lemma numbered_scan_from: "numbered_from n (map Some (scan_from n es))"
proof (induction es arbitrary: n)
  case Nil
  then show ?case by simp
next
  case (Cons e es)
  then show ?case by (cases e) auto
qed

lemma numbered_dimension_records: "numbered_from n (map Some (dimension_records n us))"
  by (induction us arbitrary: n) auto

lemma length_dimension_records: "length (dimension_records n us) = length us"
  by (induction us arbitrary: n) auto

lemma event_dimension_records: "map event (dimension_records n us) = map DeleteDimension us"
  by (induction us arbitrary: n) auto

lemma sequence_dimension_records: "map sequenceNumber (dimension_records n us) = [n ..< n + length us]"
  by (induction us arbitrary: n) (simp_all add: upt_conv_Cons del: upt_Suc)

lemma numbered_sequence:
  "numbered_from n es \<Longrightarrow> map (sequenceNumber \<circ> the) es = [n ..< n + length es]"
proof (induction es arbitrary: n)
  case Nil
  then show ?case by simp
next
  case (Cons e es)
  then show ?case by (cases e) (auto simp: upt_conv_Cons simp del: upt_Suc)
qed

lemma length_scan_last:
  "scan_from n es = rs \<Longrightarrow> rs \<noteq> [] \<Longrightarrow> sequenceNumber (last rs) + 1 = n + length rs"
proof (induction es arbitrary: n rs)
  case Nil
  then show ?case by simp
next
  case (Cons e es)
  show ?case
  proof (cases e)
    case None
    with Cons show ?thesis by simp
  next
    case (Some r)
    show ?thesis
    proof (cases "sequenceNumber r = n")
      case False
      with Some Cons show ?thesis by simp
    next
      case True
      with Some Cons.prems have rs: "rs = r # scan_from (Suc n) es" by simp
      show ?thesis
      proof (cases "scan_from (Suc n) es = []")
        case True
        with rs \<open>sequenceNumber r = n\<close> show ?thesis by simp
      next
        case False
        from Cons.IH [OF refl False] rs False show ?thesis by simp
      qed
    qed
  qed
qed

lemma well_formed_init:
  assumes "metalog_init parent = Inr ctx"
  shows "well_formed ctx"
proof (cases "metalog_file parent")
  case Absent
  with assms show ?thesis by (auto simp: metalog_init_def well_formed_def)
next
  case Unreadable
  with assms show ?thesis by (simp add: metalog_init_def)
next
  case (Present es)
  show ?thesis
  proof (cases es)
    case Nil
    with Present assms show ?thesis by (auto simp: metalog_init_def well_formed_def)
  next
    case (Cons e es')
    show ?thesis
    proof (cases e)
      case None
      with Cons Present assms show ?thesis by (auto simp: metalog_init_def well_formed_def)
    next
      case (Some r)
      define rs where "rs = scan_from (Suc (sequenceNumber r)) es'"
      have n: "numbered_from (Suc (sequenceNumber r)) (map Some rs)"
        unfolding rs_def by (rule numbered_scan_from)
      have l: "sequenceNumber (last (r # rs)) = sequenceNumber r + length rs"
      proof (cases "rs = []")
        case True
        then show ?thesis by simp
      next
        case False
        from length_scan_last [OF rs_def [symmetric] False] False show ?thesis by simp
      qed
      from assms Present Cons Some
      have d: "durable ctx = Some r # map Some rs" and p: "pending ctx = []"
        and s: "next_sequence ctx = Suc (sequenceNumber (last (r # rs)))"
        by (auto simp: metalog_init_def rs_def)
      show ?thesis
        unfolding well_formed_def d p s l using n by simp
    qed
  qed
qed

lemma well_formed_append:
  assumes "well_formed ctx" and "numbered_from (next_sequence ctx) (map Some rs)"
  shows "well_formed ((sync_log (append_records rs ctx))
           \<lparr>index := idx, next_sequence := next_sequence ctx + length rs\<rparr>)"
proof (cases "durable ctx")
  case Nil
  with assms show ?thesis
    by (cases rs) (auto simp: well_formed_def sync_log_def append_records_def)
next
  case (Cons e es)
  with assms obtain r where e: "e = Some r" by (cases e) (auto simp: well_formed_def)
  from assms Cons e have n: "numbered_from (sequenceNumber r) (durable ctx)"
    and q: "next_sequence ctx = sequenceNumber r + length (durable ctx)"
    and p: "pending ctx = []"
    by (auto simp: well_formed_def)
  from n q assms(2) have "numbered_from (sequenceNumber r) (durable ctx @ map Some rs)"
    by (simp add: numbered_from_append)
  with Cons e p q show ?thesis
    by (simp add: well_formed_def sync_log_def append_records_def)
qed

lemma well_formed_commit_delete_chart:
  assumes "well_formed ctx"
  shows "well_formed (metalog_commit_delete_chart st ctx)"
proof -
  have "numbered_from (next_sequence ctx) (map Some (delete_chart_batch (next_sequence ctx) st))"
    by (simp add: delete_chart_batch_def numbered_dimension_records)
  from well_formed_append [OF assms this] show ?thesis
    by (simp add: metalog_commit_delete_chart_def Let_def sync_log_def append_records_def)
qed

lemma well_formed_delete_dimension:
  assumes "well_formed ctx"
  shows "well_formed (metalog_delete_dimension_by_uuid ctx u)"
proof -
  have "numbered_from (next_sequence ctx)
          (map Some [\<lparr>sequenceNumber = next_sequence ctx, event = DeleteDimension u\<rparr>])"
    by simp
  from well_formed_append [OF assms this] show ?thesis
    by (simp add: metalog_delete_dimension_by_uuid_def Let_def sync_log_def append_records_def)
qed

lemma reachable_well_formed: "reachable ctx \<Longrightarrow> well_formed ctx"
  by (induction rule: reachable.induct)
     (auto intro: well_formed_init well_formed_commit_delete_chart well_formed_delete_dimension)

lemma scan_well_formed:
  assumes "well_formed ctx"
  shows "scan_metadata_log (durable ctx) = map the (durable ctx)"
proof (cases "durable ctx")
  case Nil
  then show ?thesis by simp
next
  case (Cons e es)
  with assms obtain r where e: "e = Some r" by (cases e) (auto simp: well_formed_def)
  from assms Cons e have "numbered_from (Suc (sequenceNumber r)) es"
    by (auto simp: well_formed_def)
  from scan_from_numbered [OF this, of "[]"] Cons e show ?thesis by simp
qed

lemma isDeleted_replay_record: "isDeleted u idx \<Longrightarrow> isDeleted u (replay_record r idx)"
  by (cases "event r") (auto simp: replay_record_def isDeleted_def markDeleted_def)

lemma isDeleted_fold_replay: "isDeleted u idx \<Longrightarrow> isDeleted u (fold replay_record rs idx)"
  by (induction rs arbitrary: idx) (auto simp: isDeleted_replay_record)

lemma replay_marks:
  "DeleteDimension u \<in> event ` set rs \<Longrightarrow> isDeleted u (replay rs idx)"
  unfolding replay_def
proof (induction rs arbitrary: idx)
  case Nil
  then show ?case by simp
next
  case (Cons r rs)
  show ?case
  proof (cases "event r = DeleteDimension u")
    case True
    then have "isDeleted u (replay_record r idx)"
      by (simp add: replay_record_def isDeleted_def markDeleted_def)
    then show ?thesis by (simp add: isDeleted_fold_replay)
  next
    case False
    with Cons.prems have "DeleteDimension u \<in> event ` set rs" by auto
    from Cons.IH [OF this] show ?thesis by simp
  qed
qed

lemma isDeleted_fold_markDeleted_keep: "isDeleted u idx \<Longrightarrow> isDeleted u (fold markDeleted us idx)"
  by (induction us arbitrary: idx) (auto simp: isDeleted_def markDeleted_def)

lemma isDeleted_fold_markDeleted: "u \<in> set us \<Longrightarrow> isDeleted u (fold markDeleted us idx)"
proof (induction us arbitrary: idx)
  case Nil
  then show ?case by simp
next
  case (Cons a us)
  show ?case
  proof (cases "u = a")
    case True
    have "isDeleted a (markDeleted a idx)" by (simp add: isDeleted_def markDeleted_def)
    with True show ?thesis by (simp add: isDeleted_fold_markDeleted_keep)
  next
    case False
    with Cons show ?thesis by simp
  qed
qed

lemma durable_commit_delete_chart:
  "pending ctx = [] \<Longrightarrow>
   durable (metalog_commit_delete_chart st ctx)
     = durable ctx @ map Some (delete_chart_batch (next_sequence ctx) st)"
  by (simp add: metalog_commit_delete_chart_def Let_def sync_log_def append_records_def)

lemma sorted_well_formed:
  assumes "well_formed ctx"
  shows "sorted_wrt (<) (map (sequenceNumber \<circ> the) (durable ctx))"
proof (cases "durable ctx")
  case Nil
  then show ?thesis by simp
next
  case (Cons e es)
  with assms obtain r where e: "e = Some r" by (cases e) (auto simp: well_formed_def)
  from assms Cons e have "numbered_from (sequenceNumber r) (durable ctx)"
    by (auto simp: well_formed_def)
  from numbered_sequence [OF this] show ?thesis by (simp only: sorted_wrt_upt)
qed

lemma numbered_readable: "numbered_from n es \<Longrightarrow> map Some (map the es) = es"
proof (induction es arbitrary: n)
  case Nil
  then show ?case by simp
next
  case (Cons e es)
  then show ?case by (cases e) auto
qed

lemma restart_well_formed:
  assumes "well_formed ctx"
  shows "restart idx n torn ctx =
           Inr \<lparr>durable = durable ctx, pending = [],
                index = replay (map the (durable ctx)) idx,
                next_sequence = (if durable ctx = [] then 0
                                 else Suc (sequenceNumber (last (map the (durable ctx)))))\<rparr>"
proof -
  from assms have p: "pending ctx = []" by (simp add: well_formed_def)
  have m: "map Some (map the (durable ctx)) = durable ctx"
  proof (cases "durable ctx")
    case Nil
    then show ?thesis by simp
  next
    case (Cons e es)
    with assms obtain r where e: "e = Some r" by (cases e) (auto simp: well_formed_def)
    from assms Cons e have "numbered_from (sequenceNumber r) (durable ctx)"
      by (auto simp: well_formed_def)
    then show ?thesis by (rule numbered_readable)
  qed
  show ?thesis
    using m by (simp add: restart_def crash_def p metalog_init_def scan_well_formed [OF assms])
qed

subsection \<open>Deleting a chart\<close>

text \<open>
  C2. For a chart with D dimensions, \<open>metalog_commit_delete_chart\<close> called on a reachable
  instance appends one batch to the durable log: one DeleteChart record followed by one
  DeleteDimension record per dimension, D + 1 records numbered consecutively from the
  next sequence number, so that the sequence numbers of the whole log are strictly
  increasing. Nothing is left pending when the call returns, every dimension of the
  chart is marked deleted in the index, and after a crash at that point a restart,
  whatever index the journals give it, succeeds and marks every dimension deleted again.
\<close>

theorem commit_delete_chart_appends_durable_batch:
  assumes "reachable ctx"
  shows "durable (metalog_commit_delete_chart st ctx)
           = durable ctx @ map Some (delete_chart_batch (next_sequence ctx) st)
       \<and> pending (metalog_commit_delete_chart st ctx) = []
       \<and> length (delete_chart_batch (next_sequence ctx) st) = length (dimensions st) + 1
       \<and> map event (delete_chart_batch (next_sequence ctx) st)
           = DeleteChart (chart_id st) # map DeleteDimension (dimensions st)
       \<and> map sequenceNumber (delete_chart_batch (next_sequence ctx) st)
           = [next_sequence ctx ..< next_sequence ctx + length (dimensions st) + 1]
       \<and> sorted_wrt (<) (map (sequenceNumber \<circ> the) (durable (metalog_commit_delete_chart st ctx)))
       \<and> (\<forall>u \<in> set (dimensions st). isDeleted u (index (metalog_commit_delete_chart st ctx)))
       \<and> (\<forall>idx n torn. \<exists>ctx'.
             restart idx n torn (metalog_commit_delete_chart st ctx) = Inr ctx'
             \<and> (\<forall>u \<in> set (dimensions st). isDeleted u (index ctx')))"
proof -
  let ?ctx = "metalog_commit_delete_chart st ctx"
  let ?batch = "delete_chart_batch (next_sequence ctx) st"
  from assms have wf: "well_formed ctx" by (rule reachable_well_formed)
  then have wf': "well_formed ?ctx" by (rule well_formed_commit_delete_chart)
  from wf have p: "pending ctx = []" by (simp add: well_formed_def)
  have d: "durable ?ctx = durable ctx @ map Some ?batch"
    using p by (rule durable_commit_delete_chart)
  have p': "pending ?ctx = []"
    using wf' by (simp add: well_formed_def)
  have l: "length ?batch = length (dimensions st) + 1"
    by (simp add: delete_chart_batch_def length_dimension_records)
  have e: "map event ?batch = DeleteChart (chart_id st) # map DeleteDimension (dimensions st)"
    by (simp add: delete_chart_batch_def event_dimension_records)
  have s: "map sequenceNumber ?batch
             = [next_sequence ctx ..< next_sequence ctx + length (dimensions st) + 1]"
    by (simp add: delete_chart_batch_def sequence_dimension_records upt_conv_Cons del: upt_Suc)
  have o: "sorted_wrt (<) (map (sequenceNumber \<circ> the) (durable ?ctx))"
    using wf' by (rule sorted_well_formed)
  have m: "\<forall>u \<in> set (dimensions st). isDeleted u (index ?ctx)"
    by (simp add: metalog_commit_delete_chart_def Let_def isDeleted_fold_markDeleted)
  have r: "\<forall>idx n torn. \<exists>ctx'. restart idx n torn ?ctx = Inr ctx'
             \<and> (\<forall>u \<in> set (dimensions st). isDeleted u (index ctx'))"
  proof (intro allI)
    fix idx n torn
    have logged: "DeleteDimension u \<in> event ` set (map the (durable ?ctx))"
      if "u \<in> set (dimensions st)" for u
    proof -
      from that have "DeleteDimension u \<in> set (map event ?batch)" by (simp add: e)
      then have "DeleteDimension u \<in> event ` set ?batch" by simp
      then show ?thesis by (auto simp: d)
    qed
    show "\<exists>ctx'. restart idx n torn ?ctx = Inr ctx'
             \<and> (\<forall>u \<in> set (dimensions st). isDeleted u (index ctx'))"
      unfolding restart_well_formed [OF wf'] using logged by (simp add: replay_marks)
  qed
  from d p' l e s o m r show ?thesis by blast
qed

lemma reachable_first_start: "reachable first_start"
proof (rule reachable.init)
  show "metalog_init \<lparr>engine_index = empty_index, metalog_file = Absent\<rparr> = Inr first_start"
    by (simp add: metalog_init_def first_start_def)
qed

theorem commit_delete_chart_appends_durable_batch_witness:
  "durable (metalog_commit_delete_chart chart3 first_start)
     = [Some \<lparr>sequenceNumber = 0, event = DeleteChart 7\<rparr>,
        Some \<lparr>sequenceNumber = 1, event = DeleteDimension 11\<rparr>,
        Some \<lparr>sequenceNumber = 2, event = DeleteDimension 12\<rparr>,
        Some \<lparr>sequenceNumber = 3, event = DeleteDimension 13\<rparr>]
   \<and> length (delete_chart_batch 0 chart3) = 4
   \<and> isDeleted 11 (index (metalog_commit_delete_chart chart3 first_start))
   \<and> isDeleted 12 (index (metalog_commit_delete_chart chart3 first_start))
   \<and> isDeleted 13 (index (metalog_commit_delete_chart chart3 first_start))"
  using commit_delete_chart_appends_durable_batch [OF reachable_first_start, of chart3]
  by (simp add: first_start_def chart3_def delete_chart_batch_def)

end
